theory Spec2Isabelle
  imports Complex_Main "HOL-Library.Sublist"
begin

section \<open>Values of the Python program\<close>

text \<open>
  Python strings are modelled as HOL strings.  HOL characters have eight bits, so the model
  covers the code points below 256; among these the decimal digits (what \<^verbatim>\<open>\d\<close>,
  \<^verbatim>\<open>int\<close> and \<^verbatim>\<open>float\<close> accept) are exactly \<^verbatim>\<open>0\<close> to \<^verbatim>\<open>9\<close>.
\<close>

definition digito :: "char \<Rightarrow> bool" where
  "digito c = (c \<in> set ''0123456789'')"

definition valor_digito :: "char \<Rightarrow> nat" where
  "valor_digito c = of_char c - 48"

text \<open>\<^verbatim>\<open>int(s)\<close> on a string of decimal digits (the only strings the scraper passes to it).\<close>

definition py_int :: "string \<Rightarrow> int" where
  "py_int ds = int (foldl (\<lambda>a c. 10 * a + valor_digito c) 0 ds)"

text \<open>
  A Python \<^verbatim>\<open>float\<close>.  Finite values are kept exactly, as the rational number the decimal
  text denotes: the rounding to the nearest double (and the overflow to infinity of a finite
  sum) is not part of the model.  The three non-finite values that \<^verbatim>\<open>float\<close> can parse
  are kept, with the addition of IEEE 754.
\<close>

datatype pyfloat = Finito rat | MaisInf | MenosInf | NaN

instantiation pyfloat :: comm_monoid_add
begin

definition zero_pyfloat :: pyfloat where
  "zero_pyfloat = Finito 0"

fun plus_pyfloat :: "pyfloat \<Rightarrow> pyfloat \<Rightarrow> pyfloat" where
  "plus_pyfloat (Finito a) (Finito b) = Finito (a + b)"
| "plus_pyfloat (Finito a) MaisInf = MaisInf"
| "plus_pyfloat (Finito a) MenosInf = MenosInf"
| "plus_pyfloat MaisInf (Finito b) = MaisInf"
| "plus_pyfloat MaisInf MaisInf = MaisInf"
| "plus_pyfloat MaisInf MenosInf = NaN"
| "plus_pyfloat MenosInf (Finito b) = MenosInf"
| "plus_pyfloat MenosInf MenosInf = MenosInf"
| "plus_pyfloat MenosInf MaisInf = NaN"
| "plus_pyfloat NaN y = NaN"
| "plus_pyfloat x NaN = NaN"

instance
proof
  fix u v w :: pyfloat
  show "u + v = v + u"
    by (cases u; cases v; simp)
  show "u + v + w = u + (v + w)"
    by (cases u; cases v; cases w; simp)
  show "0 + u = u"
    unfolding zero_pyfloat_def by (cases u; simp)
qed

end

subsection \<open>The builtin \<^verbatim>\<open>float\<close> on strings\<close>

text \<open>
  \<^verbatim>\<open>float(s)\<close> first checks the underscores of \<^verbatim>\<open>s\<close> (each one must stand between two
  digits) and removes them, strips white space at both ends, and then reads
  \<^verbatim>\<open>[sign] (inf | infinity | nan)\<close> in any letter case, or
  \<^verbatim>\<open>[sign] (digits [. [digits]] | . digits) [(e|E) [sign] digits]\<close>.
  Any other text raises \<^verbatim>\<open>ValueError\<close>, which is \<open>None\<close> here.
\<close>

fun sublinhados_ok :: "char \<Rightarrow> string \<Rightarrow> bool" where
  "sublinhados_ok prev [] = (prev \<noteq> CHR ''_'')"
| "sublinhados_ok prev (c # cs) =
     (if c = CHR ''_'' then digito prev \<and> sublinhados_ok c cs
      else if prev = CHR ''_'' then digito c \<and> sublinhados_ok c cs
      else sublinhados_ok c cs)"

definition espaco :: "char \<Rightarrow> bool" where
  "espaco c = (of_char c \<in> {9, 10, 11, 12, 13, 32, 133, 160 :: nat})"

definition strip :: "string \<Rightarrow> string" where
  "strip s = rev (dropWhile espaco (rev (dropWhile espaco s)))"

definition minuscula :: "char \<Rightarrow> char" where
  "minuscula c = (if 65 \<le> (of_char c :: nat) \<and> (of_char c :: nat) \<le> 90
                  then char_of (of_char c + 32 :: nat) else c)"

definition nat_de_digitos :: "string \<Rightarrow> nat" where
  "nat_de_digitos ds = foldl (\<lambda>a c. 10 * a + valor_digito c) 0 ds"

text \<open>The sign in front of a number: whether it is negative, and the rest of the text.\<close>

fun sinal :: "string \<Rightarrow> bool \<times> string" where
  "sinal [] = (False, [])"
| "sinal (c # cs) =
     (if c = CHR ''-'' then (True, cs)
      else if c = CHR ''+'' then (False, cs)
      else (False, c # cs))"

text \<open>The exponent part, from the character that follows the mantissa to the end of the text.\<close>

definition expoente :: "string \<Rightarrow> int option" where
  "expoente r =
     (case r of
        [] \<Rightarrow> Some 0
      | c # cs \<Rightarrow>
          if c = CHR ''e'' \<or> c = CHR ''E'' then
            (let (neg, ds) = sinal cs in
             if ds \<noteq> [] \<and> list_all digito ds
             then Some (if neg then - int (nat_de_digitos ds) else int (nat_de_digitos ds))
             else None)
          else None)"

definition decimal :: "string \<Rightarrow> rat option" where
  "decimal r =
     (let ip = takeWhile digito r;
          r1 = dropWhile digito r;
          ponto = (r1 \<noteq> [] \<and> hd r1 = CHR ''.'');
          fp = (if ponto then takeWhile digito (tl r1) else []);
          r2 = (if ponto then dropWhile digito (tl r1) else r1)
      in if ip = [] \<and> fp = [] then None
         else (case expoente r2 of
                 None \<Rightarrow> None
               | Some e \<Rightarrow>
                   Some (of_nat (nat_de_digitos (ip @ fp)) * 10 powi (e - int (length fp)))))"

definition py_float :: "string \<Rightarrow> pyfloat option" where
  "py_float s =
     (if \<not> sublinhados_ok (CHR 0x00) s then None
      else
        (let (neg, r) = sinal (strip (filter (\<lambda>c. c \<noteq> CHR ''_'') s));
             l = map minuscula r
         in if l = ''inf'' \<or> l = ''infinity'' then Some (if neg then MenosInf else MaisInf)
            else if l = ''nan'' then Some NaN
            else (case decimal r of
                    None \<Rightarrow> None
                  | Some q \<Rightarrow> Some (Finito (if neg then - q else q)))))"

text \<open>\<^verbatim>\<open>s.replace(old, new)\<close> for a one-character \<^verbatim>\<open>old\<close>.\<close>

definition replace :: "char \<Rightarrow> string \<Rightarrow> string \<Rightarrow> string" where
  "replace old new s = concat (map (\<lambda>c. if c = old then new else [c]) s)"

text \<open>\<^verbatim>\<open>sub in s\<close> on strings.\<close>

fun contem :: "string \<Rightarrow> string \<Rightarrow> bool" where
  "contem sub [] = (sub = [])"
| "contem sub (c # cs) = (prefix sub (c # cs) \<or> contem sub cs)"

text \<open>
  \<^verbatim>\<open>re.search(r'(\d{2})/(\d{4})', s)\<close>: the leftmost place where two digits, a slash and
  four digits follow one another; the two groups, or \<open>None\<close>.
\<close>

fun casa_competencia :: "string \<Rightarrow> (string \<times> string) option" where
  "casa_competencia (a # b # s # c # d # e # f # _) =
     (if digito a \<and> digito b \<and> s = CHR ''/'' \<and> digito c \<and> digito d \<and> digito e \<and> digito f
      then Some ([a, b], [c, d, e, f]) else None)"
| "casa_competencia _ = None"

fun re_search_competencia :: "string \<Rightarrow> (string \<times> string) option" where
  "re_search_competencia [] = None"
| "re_search_competencia (c # cs) =
     (case casa_competencia (c # cs) of
        Some g \<Rightarrow> Some g
      | None \<Rightarrow> re_search_competencia cs)"

subsection \<open>Formatting integers\<close>

text \<open>\<^verbatim>\<open>str(n)\<close> for an integer.\<close>

definition algarismo :: "nat \<Rightarrow> char" where
  "algarismo d = ''0123456789'' ! d"

fun digitos :: "nat \<Rightarrow> string" where
  "digitos n =
     (if n < 10 then [algarismo n]
      else digitos (n div 10) @ [algarismo (n mod 10)])"

declare digitos.simps [simp del]

definition str_int :: "int \<Rightarrow> string" where
  "str_int n = (if n < 0 then CHR ''-'' # digitos (nat (- n)) else digitos (nat n))"

text \<open>
  The format \<^verbatim>\<open>{n:02d}\<close>: the decimal text, filled with zeros on the left up to two
  characters, the sign counting as one of them.  Only a number from 0 to 9 is shorter than
  two characters.
\<close>

definition fmt_02d :: "int \<Rightarrow> string" where
  "fmt_02d n = (if 0 \<le> n \<and> n < 10 then CHR ''0'' # str_int n else str_int n)"

section \<open>The Page Scraper\<close>

text \<open>
  The HTML text reaches the program only through BeautifulSoup.  A page is modelled by what
  the program reads from the parsed document: the rows (\<^verbatim>\<open>tr\<close>) of the first
  \<^verbatim>\<open>tbody\<close> if there is one, and whether the \<^verbatim>\<open>paginacao\<close> block holds a link
  titled \<^verbatim>\<open>Pr\'oxima\<close>.  Of a row it reads the text of the cell of class
  \<^verbatim>\<open>td-competencia\<close> and of the cell of class \<^verbatim>\<open>td-valor\<close>
  (\<^verbatim>\<open>get_text(strip=True)\<close>, \<open>None\<close> when the cell is absent) and the attribute
  \<^verbatim>\<open>data-situacao\<close>.
\<close>

record linha =
  td_competencia :: "string option"
  data_situacao :: "string option"
  td_valor :: "string option"

record pagina =
  tbody :: "linha list option"
  proxima :: bool

text \<open>The dictionary appended for a retained row.\<close>

record nota =
  mes :: int
  ano :: int
  valor :: pyfloat
  status :: string

text \<open>
  The competence date of a row: the month and the year read from the cell of class
  \<^verbatim>\<open>td-competencia\<close>, \<open>None\<close> when the cell or the date is missing.
\<close>

definition competencia :: "linha \<Rightarrow> (int \<times> int) option" where
  "competencia linha =
     (case td_competencia linha of
        None \<Rightarrow> None
      | Some texto \<Rightarrow>
          (case re_search_competencia texto of
             None \<Rightarrow> None
           | Some (g1, g2) \<Rightarrow> Some (py_int g1, py_int g2)))"

text \<open>\<^verbatim>\<open>linha.get('data-situacao', '')\<close>.\<close>

definition status_cod :: "linha \<Rightarrow> string" where
  "status_cod linha = (case data_situacao linha of None \<Rightarrow> [] | Some s \<Rightarrow> s)"

text \<open>
  The conversion of the text of the value cell,
  \<^verbatim>\<open>float(valor_txt.replace('.', '').replace(',', '.'))\<close>.
\<close>

definition converter_valor :: "string \<Rightarrow> pyfloat option" where
  "converter_valor valor_txt =
     py_float (replace (CHR '','') ''.'' (replace (CHR ''.'') [] valor_txt))"

text \<open>
  What one pass through the body of the \<^verbatim>\<open>for\<close> loop does: leave the loop with
  \<^verbatim>\<open>continuar = False\<close>, go on to the next row (\<^verbatim>\<open>continue\<close>, also taken by the
  \<^verbatim>\<open>except\<close> clause), or append a record.
\<close>

datatype passo = Break | Continue | Append nota

definition processar_linha :: "linha \<Rightarrow> int \<Rightarrow> int option \<Rightarrow> passo" where
  "processar_linha linha ano_alvo mes_filtro =
     (case competencia linha of
        None \<Rightarrow> Continue
      | Some (mes_nota, ano_nota) \<Rightarrow>
          if ano_nota \<noteq> ano_alvo then Break
          else if (case mes_filtro of None \<Rightarrow> False | Some m \<Rightarrow> mes_nota < m) then Break
          else if (case mes_filtro of None \<Rightarrow> False | Some m \<Rightarrow> mes_nota \<noteq> m) then Continue
          else if \<not> contem ''GERADA'' (status_cod linha) then Continue
          else
            (case td_valor linha of
               None \<Rightarrow> Continue
             | Some valor_txt \<Rightarrow>
                 (case converter_valor valor_txt of
                    None \<Rightarrow> Continue
                  | Some v \<Rightarrow>
                      Append \<lparr>mes = mes_nota, ano = ano_nota, valor = v,
                              status = ''Autorizada''\<rparr>)))"

fun processar_linhas :: "linha list \<Rightarrow> int \<Rightarrow> int option \<Rightarrow> nota list \<Rightarrow> nota list \<times> bool" where
  "processar_linhas [] ano_alvo mes_filtro notas = (notas, True)"
| "processar_linhas (l # ls) ano_alvo mes_filtro notas =
     (case processar_linha l ano_alvo mes_filtro of
        Break \<Rightarrow> (notas, False)
      | Continue \<Rightarrow> processar_linhas ls ano_alvo mes_filtro notas
      | Append n \<Rightarrow> processar_linhas ls ano_alvo mes_filtro (notas @ [n]))"

definition processar_pagina :: "pagina \<Rightarrow> int \<Rightarrow> int option \<Rightarrow> nota list \<times> bool" where
  "processar_pagina html ano_alvo mes_filtro =
     (case tbody html of
        None \<Rightarrow> ([], False)
      | Some linhas \<Rightarrow> processar_linhas linhas ano_alvo mes_filtro [])"

section \<open>The Aggregator\<close>

text \<open>
  A Python \<^verbatim>\<open>dict\<close> keeps its keys in the order of their first insertion; it is
  modelled as an association list without repeated keys.  \<open>dict_set\<close> is the assignment
  \<^verbatim>\<open>d[k] = v\<close>.
\<close>

fun dict_set :: "'k \<Rightarrow> 'v \<Rightarrow> ('k \<times> 'v) list \<Rightarrow> ('k \<times> 'v) list" where
  "dict_set k v [] = [(k, v)]"
| "dict_set k v ((k', v') # d) =
     (if k' = k then (k', v) # d else (k', v') # dict_set k v d)"

text \<open>The label \<^verbatim>\<open>f"{m:02d}/{a}"\<close> of a month.\<close>

definition chave :: "int \<Rightarrow> int \<Rightarrow> string" where
  "chave m a = fmt_02d m @ ''/'' @ str_int a"

text \<open>The second loop of \<^verbatim>\<open>totalizar_por_mes\<close>, over the records.\<close>

fun somar_notas :: "nota list \<Rightarrow> (string \<times> pyfloat) list \<Rightarrow> (string \<times> pyfloat) list" where
  "somar_notas [] meses = meses"
| "somar_notas (n # ns) meses =
     somar_notas ns
       (case map_of meses (chave (mes n) (ano n)) of
          Some t \<Rightarrow> dict_set (chave (mes n) (ano n)) (t + valor n) meses
        | None \<Rightarrow> meses)"

definition totalizar_por_mes ::
  "nota list \<Rightarrow> int \<Rightarrow> int option \<Rightarrow> (string \<times> pyfloat) list" where
  "totalizar_por_mes notas ano_alvo mes_filtro =
     somar_notas notas
       (case mes_filtro of
          Some m \<Rightarrow> dict_set (chave m ano_alvo) 0 []
        | None \<Rightarrow> foldl (\<lambda>meses m. dict_set (chave m ano_alvo) 0 meses) [] [1..12])"

section \<open>The Paginator\<close>

datatype http_exception = HTTPException (status_code: int) (detail: string)

text \<open>
  What \<^verbatim>\<open>session.get\<close> gives for a page of the listing: a response with its status code
  and its parsed text, or an exception with its message.
\<close>

datatype resposta = Resposta int pagina | Excecao string

text \<open>
  A session is modelled by what the portal answers through it: the outcome of the request
  for each page index, and the identifier and name of the profile fragment when
  \<^verbatim>\<open>extrair_contribuinte\<close> can read them.  The handler may hold no session
  (\<^verbatim>\<open>session = None\<close>); then \<^verbatim>\<open>session.get\<close> raises \<^verbatim>\<open>AttributeError\<close>.
\<close>

record sessao =
  paginas :: "nat \<Rightarrow> resposta"
  perfil :: "(string \<times> string) option"

definition session_get :: "sessao option \<Rightarrow> nat \<Rightarrow> resposta" where
  "session_get session pg =
     (case session of
        None \<Rightarrow> Excecao ([CHR 0x27] @ ''NoneType'' @ [CHR 0x27] @ '' object has no attribute ''
                          @ [CHR 0x27] @ ''get'' @ [CHR 0x27])
      | Some s \<Rightarrow> paginas s pg)"

definition erro_pagina :: "nat \<Rightarrow> string \<Rightarrow> string" where
  "erro_pagina pg e =
     ''Erro ao consultar p'' @ [CHR 0xE1] @ ''gina '' @ digitos pg @ '': '' @ e"

text \<open>
  The \<^verbatim>\<open>while True\<close> loop of \<^verbatim>\<open>consultar_notas\<close>.  Nothing bounds the number of pages
  a portal may offer, so the loop is a partial function: \<open>None\<close> is a run that never
  returns.
\<close>

partial_function (option) paginar ::
  "sessao option \<Rightarrow> int \<Rightarrow> int option \<Rightarrow> nota list \<Rightarrow> nat \<Rightarrow> (http_exception + nota list) option"
where
  "paginar session ano_alvo mes_filtro todas_notas pg =
     (case session_get session pg of
        Excecao e \<Rightarrow> Some (Inl (HTTPException 500 (erro_pagina pg e)))
      | Resposta codigo html \<Rightarrow>
          if codigo \<noteq> 200 then Some (Inr todas_notas)
          else if \<not> snd (processar_pagina html ano_alvo mes_filtro)
            then Some (Inr (todas_notas @ fst (processar_pagina html ano_alvo mes_filtro)))
          else if \<not> proxima html
            then Some (Inr (todas_notas @ fst (processar_pagina html ano_alvo mes_filtro)))
          else paginar session ano_alvo mes_filtro
                 (todas_notas @ fst (processar_pagina html ano_alvo mes_filtro)) (pg + 1))"

definition consultar_notas ::
  "sessao option \<Rightarrow> int \<Rightarrow> int option \<Rightarrow> (http_exception + nota list) option" where
  "consultar_notas session ano_alvo mes_filtro = paginar session ano_alvo mes_filtro [] 1"

definition extrair_contribuinte :: "sessao option \<Rightarrow> string \<times> string" where
  "extrair_contribuinte session =
     (case session of
        None \<Rightarrow> (''N/A'', ''N/A'')
      | Some s \<Rightarrow> (case perfil s of None \<Rightarrow> (''N/A'', ''N/A'') | Some p \<Rightarrow> p))"

section \<open>The Request Handler\<close>

text \<open>
  The request and the response.  The fields \<^verbatim>\<open>ano\<close> and \<^verbatim>\<open>mes\<close> of the request and
  \<^verbatim>\<open>cnpj\<close> and \<^verbatim>\<open>ano\<close> of the response carry a prefix here, since a record field is a
  constant of the theory.
\<close>

record consulta_request =
  auth_method :: int
  req_ano :: int
  req_mes :: "int option"
  cert_base64 :: "string option"
  cert_senha :: "string option"
  cnpj :: "string option"
  senha :: "string option"

record consulta_response =
  resp_cnpj :: string
  razao_social :: string
  resp_ano :: int
  mes_filtrado :: "int option"
  quantidade_autorizadas :: nat
  total_autorizado :: pyfloat
  total_cancelado :: pyfloat
  detalhamento_por_mes :: "(string \<times> pyfloat) list"

text \<open>The validators of the request model; \<open>Inl\<close> is the \<^verbatim>\<open>ValueError\<close>.\<close>

definition validar_auth :: "int \<Rightarrow> string + int" where
  "validar_auth v = (if v \<noteq> 1 \<and> v \<noteq> 2 then Inl ''auth_method deve ser 1 ou 2'' else Inr v)"

definition validar_ano :: "int \<Rightarrow> string + int" where
  "validar_ano v = (if v < 2000 \<or> v > 2100 then Inl (''Ano inv'' @ [CHR 0xE1] @ ''lido'') else Inr v)"

definition validar_mes :: "int option \<Rightarrow> string + int option" where
  "validar_mes v =
     (case v of
        None \<Rightarrow> Inr v
      | Some m \<Rightarrow>
          if m < 1 \<or> m > 12 then Inl (''M'' @ [CHR 0xEA] @ ''s deve ser entre 1 e 12'') else Inr v)"

text \<open>Python's truth value of an optional string: \<^verbatim>\<open>None\<close> and \<^verbatim>\<open>""\<close> are false.\<close>

definition preenchido :: "string option \<Rightarrow> bool" where
  "preenchido c = (case c of None \<Rightarrow> False | Some s \<Rightarrow> s \<noteq> [])"

definition texto_de :: "string option \<Rightarrow> string" where
  "texto_de c = (case c of None \<Rightarrow> [] | Some s \<Rightarrow> s)"

definition campo_obrigatorio :: "string \<Rightarrow> string" where
  "campo_obrigatorio campo = ''Campo obrigat'' @ [CHR 0xF3] @ ''rio: '' @ campo"

text \<open>
  The two authenticators load key material and talk to the portal; the handler sees only
  whether they return a session or raise.  They are the portal's side of the model.
\<close>

record portal =
  autenticar_certificado :: "string \<Rightarrow> string \<Rightarrow> http_exception + sessao"
  autenticar_login :: "string \<Rightarrow> string \<Rightarrow> http_exception + sessao"

text \<open>
  The calls the handler makes to the functions that reach the network or the file system, in
  the order it makes them.
\<close>

datatype chamada =
  AutenticarCertificado | AutenticarLogin | ExtrairContribuinte | ConsultarNotas | LimparTemp

text \<open>The summary built from the scraped records (the totals and the response object).\<close>

definition resumir :: "string \<times> string \<Rightarrow> consulta_request \<Rightarrow> nota list \<Rightarrow> consulta_response" where
  "resumir contribuinte req notas =
     \<lparr>resp_cnpj = fst contribuinte,
      razao_social = snd contribuinte,
      resp_ano = req_ano req,
      mes_filtrado = req_mes req,
      quantidade_autorizadas = length notas,
      total_autorizado = foldl (+) 0 (map valor notas),
      total_cancelado = 0,
      detalhamento_por_mes = totalizar_por_mes notas (req_ano req) (req_mes req)\<rparr>"

text \<open>
  The handler from the profile lookup on, with the \<^verbatim>\<open>finally\<close> clause: the temporary
  files are removed when there is a session.
\<close>

definition apos_autenticar ::
  "sessao option \<Rightarrow> consulta_request \<Rightarrow> chamada list
     \<Rightarrow> ((http_exception + consulta_response) \<times> chamada list) option" where
  "apos_autenticar session req feitas =
     (case consultar_notas session (req_ano req) (req_mes req) of
        None \<Rightarrow> None
      | Some r \<Rightarrow>
          Some ((case r of
                   Inl e \<Rightarrow> Inl e
                 | Inr notas \<Rightarrow> Inr (resumir (extrair_contribuinte session) req notas)),
                feitas @ [ExtrairContribuinte, ConsultarNotas]
                  @ (case session of None \<Rightarrow> [] | Some s \<Rightarrow> [LimparTemp])))"

definition consultar ::
  "portal \<Rightarrow> consulta_request \<Rightarrow> ((http_exception + consulta_response) \<times> chamada list) option" where
  "consultar p req =
     (if auth_method req = 1 then
        (if \<not> preenchido (cert_base64 req)
           then Some (Inl (HTTPException 400 (campo_obrigatorio ''cert_base64'')), [])
         else if \<not> preenchido (cert_senha req)
           then Some (Inl (HTTPException 400 (campo_obrigatorio ''cert_senha'')), [])
         else
           (case autenticar_certificado p (texto_de (cert_base64 req)) (texto_de (cert_senha req)) of
              Inl e \<Rightarrow> Some (Inl e, [AutenticarCertificado])
            | Inr s \<Rightarrow> apos_autenticar (Some s) req [AutenticarCertificado]))
      else if auth_method req = 2 then
        (if \<not> preenchido (cnpj req)
           then Some (Inl (HTTPException 400 (campo_obrigatorio ''cnpj'')), [])
         else if \<not> preenchido (senha req)
           then Some (Inl (HTTPException 400 (campo_obrigatorio ''senha'')), [])
         else
           (case autenticar_login p (texto_de (cnpj req)) (texto_de (senha req)) of
              Inl e \<Rightarrow> Some (Inl e, [AutenticarLogin])
            | Inr s \<Rightarrow> apos_autenticar (Some s) req [AutenticarLogin]))
      else apos_autenticar None req [])"

section \<open>Stop conditions, pages and sessions used in the statements\<close>

text \<open>
  The stop condition of a row: its competence year is not the target year, or a month filter
  is set and its competence month is smaller than the filter.
\<close>

definition condicao_parada :: "linha \<Rightarrow> int \<Rightarrow> int option \<Rightarrow> bool" where
  "condicao_parada linha ano_alvo mes_filtro =
     (case competencia linha of
        None \<Rightarrow> False
      | Some (mes_nota, ano_nota) \<Rightarrow>
          ano_nota \<noteq> ano_alvo \<or> (case mes_filtro of None \<Rightarrow> False | Some m \<Rightarrow> mes_nota < m))"

text \<open>
  For the paginator: whether the loop goes on after page \<open>i\<close> (status 200, no stop signal
  from the scraper, a link to the next page), and the records the page contributes.
\<close>

definition pagina_segue :: "sessao option \<Rightarrow> int \<Rightarrow> int option \<Rightarrow> nat \<Rightarrow> bool" where
  "pagina_segue session ano_alvo mes_filtro i =
     (case session_get session i of
        Excecao e \<Rightarrow> False
      | Resposta codigo html \<Rightarrow>
          codigo = 200 \<and> snd (processar_pagina html ano_alvo mes_filtro) \<and> proxima html)"

definition notas_da_pagina :: "sessao option \<Rightarrow> int \<Rightarrow> int option \<Rightarrow> nat \<Rightarrow> nota list" where
  "notas_da_pagina session ano_alvo mes_filtro i =
     (case session_get session i of
        Excecao e \<Rightarrow> []
      | Resposta codigo html \<Rightarrow> fst (processar_pagina html ano_alvo mes_filtro))"

text \<open>Rows, pages, records and sessions for the concrete cases.\<close>

definition linha_de :: "string \<Rightarrow> string \<Rightarrow> string \<Rightarrow> linha" where
  "linha_de c s v = \<lparr>td_competencia = Some c, data_situacao = Some s, td_valor = Some v\<rparr>"

definition pagina_de :: "linha list \<Rightarrow> bool \<Rightarrow> pagina" where
  "pagina_de ls px = \<lparr>tbody = Some ls, proxima = px\<rparr>"

definition autorizada :: "int \<Rightarrow> int \<Rightarrow> rat \<Rightarrow> nota" where
  "autorizada m a v = \<lparr>mes = m, ano = a, valor = Finito v, status = ''Autorizada''\<rparr>"

definition sessao_de :: "(nat \<Rightarrow> resposta) \<Rightarrow> sessao" where
  "sessao_de f = \<lparr>paginas = f, perfil = Some (''12345678000190'', ''EMPRESA X'')\<rparr>"

section \<open>Properties of the Page Scraper\<close>

subsection \<open>The loop over the rows\<close>

lemma processar_linhas_append:
  "processar_linhas (pre @ post) y mf acc =
     (if snd (processar_linhas pre y mf acc)
      then processar_linhas post y mf (fst (processar_linhas pre y mf acc))
      else (fst (processar_linhas pre y mf acc), False))"
  by (induction pre arbitrary: acc) (simp_all split: passo.splits)

lemma processar_linhas_break:
  assumes "processar_linha r y mf = Break"
  shows "processar_linhas (pre @ r # post) y mf acc = (fst (processar_linhas pre y mf acc), False)"
  using assms by (simp add: processar_linhas_append)

lemma processar_linhas_continue:
  assumes "processar_linha r y mf = Continue"
  shows "processar_linhas (pre @ r # post) y mf acc = processar_linhas (pre @ post) y mf acc"
  using assms by (simp add: processar_linhas_append)

lemma processar_linha_append:
  assumes "processar_linha r y mf = Append n"
  shows "ano n = y" and "mf = Some m \<Longrightarrow> mes n = m"
  using assms
  by (auto simp: processar_linha_def split: option.splits prod.splits if_splits)

lemma processar_linhas_notas:
  assumes "\<forall>n \<in> set acc. ano n = y \<and> (case mf of None \<Rightarrow> True | Some m \<Rightarrow> mes n = m)"
  shows "\<forall>n \<in> set (fst (processar_linhas ls y mf acc)).
           ano n = y \<and> (case mf of None \<Rightarrow> True | Some m \<Rightarrow> mes n = m)"
  using assms
proof (induction ls arbitrary: acc)
  case Nil
  then show ?case by simp
next
  case (Cons l ls)
  show ?case
  proof (cases "processar_linha l y mf")
    case Break
    then show ?thesis using Cons.prems by simp
  next
    case Continue
    then show ?thesis using Cons.IH [OF Cons.prems] by simp
  next
    case (Append n)
    have "\<forall>k \<in> set (acc @ [n]). ano k = y \<and> (case mf of None \<Rightarrow> True | Some m \<Rightarrow> mes k = m)"
      using Cons.prems processar_linha_append [OF Append]
      by (auto split: option.splits)
    from Cons.IH [OF this] Append show ?thesis by simp
  qed
qed

subsection \<open>What one row does\<close>

lemma processar_linha_break_iff:
  "processar_linha r y mf = Break \<longleftrightarrow> condicao_parada r y mf"
  by (auto simp: processar_linha_def condicao_parada_def split: option.splits prod.splits)

lemma processar_linhas_flag:
  "snd (processar_linhas ls y mf acc) = (\<not> list_ex (\<lambda>r. condicao_parada r y mf) ls)"
proof (induction ls arbitrary: acc)
  case Nil
  show ?case by simp
next
  case (Cons l ls)
  show ?case
  proof (cases "processar_linha l y mf")
    case Break
    then show ?thesis using processar_linha_break_iff [of l y mf] by simp
  next
    case Continue
    then show ?thesis using processar_linha_break_iff [of l y mf] Cons.IH by simp
  next
    case (Append n)
    then show ?thesis using processar_linha_break_iff [of l y mf] Cons.IH by simp
  qed
qed

lemma sem_gerada_nao_append:
  assumes "\<not> contem ''GERADA'' (status_cod r)"
  shows "processar_linha r y mf \<noteq> Append n"
  using assms by (auto simp: processar_linha_def split: option.splits prod.splits)

lemma valor_invalido_continue:
  assumes "competencia r = Some (m, y)" and "mf = None \<or> mf = Some m"
    and "td_valor r = Some txt" and "converter_valor txt = None"
  shows "processar_linha r y mf = Continue"
  using assms by (auto simp: processar_linha_def)

lemma ano_diferente_break:
  assumes "competencia r = Some (m, y')" and "y' \<noteq> y"
  shows "processar_linha r y mf = Break"
  using assms by (simp add: processar_linha_def)

lemma mes_menor_break:
  assumes "competencia r = Some (m', y)" and "m' < m"
  shows "processar_linha r y (Some m) = Break"
  using assms by (simp add: processar_linha_def)

lemma mes_maior_continue:
  assumes "competencia r = Some (m', y)" and "m < m'"
  shows "processar_linha r y (Some m) = Continue"
  using assms by (simp add: processar_linha_def)

subsection \<open>Evaluating concrete rows\<close>

lemmas avaliar_competencia =
  linha_de_def competencia_def status_cod_def digito_def py_int_def valor_digito_def

lemmas avaliar_float =
  converter_valor_def replace_def py_float_def strip_def espaco_def minuscula_def
  decimal_def expoente_def nat_de_digitos_def valor_digito_def digito_def power_int_def
  power2_eq_square

lemma competencia_03_2025: "competencia (linha_de ''03/2025'' s v) = Some (3, 2025)"
  by (simp add: avaliar_competencia)

lemma competencia_05_2025: "competencia (linha_de ''05/2025'' s v) = Some (5, 2025)"
  by (simp add: avaliar_competencia)

lemma competencia_02_2025: "competencia (linha_de ''02/2025'' s v) = Some (2, 2025)"
  by (simp add: avaliar_competencia)

lemma competencia_04_2025: "competencia (linha_de ''04/2025'' s v) = Some (4, 2025)"
  by (simp add: avaliar_competencia)

lemma competencia_13_2025: "competencia (linha_de ''13/2025'' s v) = Some (13, 2025)"
  by (simp add: avaliar_competencia)

lemma competencia_12_2024: "competencia (linha_de ''12/2024'' s v) = Some (12, 2024)"
  by (simp add: avaliar_competencia)

lemma linha_de_campos:
  "td_valor (linha_de c s v) = Some v" "status_cod (linha_de c s v) = s"
  by (simp_all add: linha_de_def status_cod_def)

lemma contem_gerada: "contem ''GERADA'' ''GERADA''" "\<not> contem ''GERADA'' ''CANCELADA''"
  by simp_all

lemma converter_100: "converter_valor ''100,00'' = Some (Finito 100)"
  by (simp add: avaliar_float)

lemma converter_50: "converter_valor ''50,50'' = Some (Finito (101 / 2))"
  by (simp add: avaliar_float)

lemma converter_200: "converter_valor ''200,00'' = Some (Finito 200)"
  by (simp add: avaliar_float)

lemma converter_1: "converter_valor ''1,00'' = Some (Finito 1)"
  by (simp add: avaliar_float)

lemma converter_abc: "converter_valor ''abc'' = None"
  by (simp add: avaliar_float)

lemma converter_10_5: "converter_valor ''10,5'' = Some (Finito (21 / 2))"
  by (simp add: avaliar_float)

lemmas avaliar_linha =
  processar_linha_def linha_de_campos contem_gerada
  competencia_03_2025 competencia_05_2025 competencia_02_2025 competencia_04_2025
  competencia_13_2025 competencia_12_2024
  converter_100 converter_50 converter_200 converter_1 converter_abc converter_10_5

lemma linha_autorizada_100:
  "processar_linha (linha_de ''03/2025'' ''GERADA'' ''100,00'') 2025 mf =
     (if (case mf of None \<Rightarrow> False | Some m \<Rightarrow> 3 < m) then Break
      else if (case mf of None \<Rightarrow> False | Some m \<Rightarrow> 3 \<noteq> m) then Continue
      else Append (autorizada 3 2025 100))"
  by (simp add: avaliar_linha autorizada_def)

subsection \<open>Pages\<close>

lemma processar_pagina_de:
  "processar_pagina (pagina_de ls px) y mf = processar_linhas ls y mf []"
  by (simp add: processar_pagina_def pagina_de_def)

lemma tbody_pagina_de: "tbody (pagina_de ls px) = Some ls"
  by (simp add: pagina_de_def)

section \<open>The claims\<close>

text \<open>
  C1.  Every record that \<open>processar_pagina\<close> returns has the target year in its field
  \<open>ano\<close>, for every page, target year and month filter.  A row whose competence year is
  not the target year ends the scan: the page gives the records of the rows before it and
  the flag \<open>False\<close>, whatever follows the row.
\<close>

theorem processar_pagina_ano_alvo:
  "(\<forall>n \<in> set (fst (processar_pagina html y mf)). ano n = y) \<and>
   (\<forall>pre r post m' y'.
       tbody html = Some (pre @ r # post) \<and> competencia r = Some (m', y') \<and> y' \<noteq> y \<longrightarrow>
       processar_pagina html y mf
         = (fst (processar_pagina (html\<lparr>tbody := Some pre\<rparr>) y mf), False))"
proof (intro conjI allI impI)
  show "\<forall>n \<in> set (fst (processar_pagina html y mf)). ano n = y"
  proof (cases "tbody html")
    case None
    then show ?thesis by (simp add: processar_pagina_def)
  next
    case (Some ls)
    have "\<forall>n \<in> set ([] :: nota list). ano n = y \<and> (case mf of None \<Rightarrow> True | Some m \<Rightarrow> mes n = m)"
      by simp
    from processar_linhas_notas [OF this, of ls] Some show ?thesis
      by (simp add: processar_pagina_def)
  qed
next
  fix pre r post m' y'
  assume h: "tbody html = Some (pre @ r # post) \<and> competencia r = Some (m', y') \<and> y' \<noteq> y"
  then have "processar_linha r y mf = Break"
    using ano_diferente_break by blast
  from processar_linhas_break [OF this, of pre post "[]"] h
  show "processar_pagina html y mf
          = (fst (processar_pagina (html\<lparr>tbody := Some pre\<rparr>) y mf), False)"
    by (simp add: processar_pagina_def)
qed

theorem processar_pagina_ano_alvo_witness:
  "tbody (pagina_de [linha_de ''03/2025'' ''GERADA'' ''100,00'',
                     linha_de ''12/2024'' ''GERADA'' ''200,00'',
                     linha_de ''05/2025'' ''GERADA'' ''50,50''] False)
     = Some ([linha_de ''03/2025'' ''GERADA'' ''100,00'']
             @ linha_de ''12/2024'' ''GERADA'' ''200,00''
             # [linha_de ''05/2025'' ''GERADA'' ''50,50'']) \<and>
   competencia (linha_de ''12/2024'' ''GERADA'' ''200,00'') = Some (12, 2024) \<and>
   (2024 :: int) \<noteq> 2025 \<and>
   processar_pagina (pagina_de [linha_de ''03/2025'' ''GERADA'' ''100,00'',
                                linha_de ''12/2024'' ''GERADA'' ''200,00'',
                                linha_de ''05/2025'' ''GERADA'' ''50,50''] False) 2025 None
     = ([autorizada 3 2025 100], False) \<and>
   ano (autorizada 3 2025 100) = 2025"
proof -
  let ?a = "linha_de ''03/2025'' ''GERADA'' ''100,00''"
  let ?b = "linha_de ''12/2024'' ''GERADA'' ''200,00''"
  let ?c = "linha_de ''05/2025'' ''GERADA'' ''50,50''"
  let ?pg = "pagina_de [?a, ?b, ?c] False"
  have t: "tbody ?pg = Some ([?a] @ ?b # [?c])"
    by (simp add: pagina_de_def)
  have c: "competencia ?b = Some (12, 2024)"
    by (rule competencia_12_2024)
  have ne: "(2024 :: int) \<noteq> 2025"
    by simp
  have pre: "processar_pagina (?pg\<lparr>tbody := Some [?a]\<rparr>) 2025 None
               = ([autorizada 3 2025 100], True)"
    by (simp add: processar_pagina_def linha_autorizada_100)
  from conjunct2 [OF processar_pagina_ano_alvo [of ?pg 2025 None]] t c ne
  have "processar_pagina ?pg 2025 None
          = (fst (processar_pagina (?pg\<lparr>tbody := Some [?a]\<rparr>) 2025 None), False)"
    by blast
  with pre t c show ?thesis by (simp add: autorizada_def)
qed

end
